theory Spec2Isabelle
  imports Main
begin

section \<open>JavaScript values as the handlers of server.js see them\<close>

text \<open>
  A JavaScript string is a sequence of UTF-16 code units; \<open>length\<close> counts them, as
  \<^verbatim>\<open>.length\<close> does. Code units are natural numbers here. An ASCII literal of the source
  is written \<open>js ''...''\<close>; the Korean message literals are given by their code units.
\<close>

type_synonym jsstring = "nat list"

definition js :: "string \<Rightarrow> jsstring" where
  "js s = map of_char s"

text \<open>
  The values a field of a parsed JSON body can have, seen through the operations the
  handlers apply to them. \<open>JUndefined\<close> is an absent field. A number is kept as an integer:
  the handlers only observe whether it is zero. \<open>JOther s b\<close> is an array or an object
  (\<^verbatim>\<open>typeof\<close> gives \<^verbatim>\<open>'object'\<close>, it is truthy, it has no callable \<^verbatim>\<open>trim\<close> or
  \<^verbatim>\<open>toLowerCase\<close>), described by the two things the handlers can observe of it: its
  string conversion \<open>s\<close> and the value \<open>b\<close> of \<^verbatim>\<open>v.length < 6\<close>.
\<close>

datatype jsval =
    JUndefined
  | JNull
  | JBool bool
  | JNum int
  | JStr jsstring
  | JOther jsstring bool

fun truthy :: "jsval \<Rightarrow> bool" where
  "truthy JUndefined = False"
| "truthy JNull = False"
| "truthy (JBool b) = b"
| "truthy (JNum n) = (n \<noteq> 0)"
| "truthy (JStr s) = (s \<noteq> [])"
| "truthy (JOther s b) = True"

text \<open>\<^verbatim>\<open>typeof v === 'boolean'\<close>, and the boolean that a boolean value carries.\<close>

fun is_boolean :: "jsval \<Rightarrow> bool" where
  "is_boolean (JBool b) = True"
| "is_boolean v = False"

fun the_boolean :: "jsval \<Rightarrow> bool" where
  "the_boolean (JBool b) = b"
| "the_boolean v = truthy v"

text \<open>
  \<^verbatim>\<open>req.body\<close>: Express 5 leaves it undefined when no JSON body was parsed; otherwise it
  is the parsed object, given by its fields (a parsed array has none of the fields the
  handlers read, and is the empty field list).
\<close>

datatype body = NoBody | Body "(jsstring \<times> jsval) list"

text \<open>What a handler can throw: \<^verbatim>\<open>err.name\<close>, \<^verbatim>\<open>err.code\<close> (absent for runtime errors) and
  \<^verbatim>\<open>err.message\<close>.\<close>

record exn =
  err_name :: string
  err_code :: "string option"
  err_message :: jsstring

definition TypeError :: "string \<Rightarrow> exn" where
  "TypeError m = \<lparr>err_name = ''TypeError'', err_code = None, err_message = js m\<rparr>"

text \<open>\<^verbatim>\<open>const { f } = req.body\<close>: destructuring undefined throws, an absent field is
  undefined.\<close>

definition destructure :: "body \<Rightarrow> string \<Rightarrow> exn + jsval" where
  "destructure b f =
     (case b of
        NoBody \<Rightarrow> Inl (TypeError (''Cannot destructure property '' @ f @ '' of req.body as it is undefined.''))
      | Body fs \<Rightarrow> (case map_of fs (js f) of None \<Rightarrow> Inr JUndefined | Some v \<Rightarrow> Inr v))"

subsection \<open>String operations\<close>

text \<open>The white space and line terminators of ECMAScript: what \<^verbatim>\<open>trim\<close> strips and what
  \<^verbatim>\<open>\s\<close> matches.\<close>

definition is_space :: "nat \<Rightarrow> bool" where
  "is_space c \<longleftrightarrow>
     c = 9 \<or> c = 10 \<or> c = 11 \<or> c = 12 \<or> c = 13 \<or> c = 32 \<or> c = 160 \<or> c = 0x1680
     \<or> (0x2000 \<le> c \<and> c \<le> 0x200A) \<or> c = 0x2028 \<or> c = 0x2029 \<or> c = 0x202F
     \<or> c = 0x205F \<or> c = 0x3000 \<or> c = 0xFEFF"

definition trim :: "jsstring \<Rightarrow> jsstring" where
  "trim s = rev (dropWhile is_space (rev (dropWhile is_space s)))"

text \<open>\<^verbatim>\<open>s.split(' ')\<close>: cut at every space; the result is never empty.\<close>

fun split_sp :: "jsstring \<Rightarrow> jsstring list" where
  "split_sp [] = [[]]"
| "split_sp (c # cs) =
     (if c = 32 then [] # split_sp cs
      else (case split_sp cs of [] \<Rightarrow> [[c]] | w # ws \<Rightarrow> (c # w) # ws))"

text \<open>\<^verbatim>\<open>xs[i]\<close>: undefined out of range.\<close>

definition index :: "'a list \<Rightarrow> nat \<Rightarrow> 'a option" where
  "index xs i = (if i < length xs then Some (xs ! i) else None)"

text \<open>What the driver sends for a string parameter: its UTF-8 encoding, in which a
  surrogate without its partner becomes U+FFFD. Read back, that is the string with every
  unpaired surrogate replaced.\<close>

definition high_surrogate :: "nat \<Rightarrow> bool" where
  "high_surrogate c \<longleftrightarrow> 0xD800 \<le> c \<and> c \<le> 0xDBFF"

definition low_surrogate :: "nat \<Rightarrow> bool" where
  "low_surrogate c \<longleftrightarrow> 0xDC00 \<le> c \<and> c \<le> 0xDFFF"

fun utf8_text :: "jsstring \<Rightarrow> jsstring" where
  "utf8_text [] = []"
| "utf8_text [c] = (if high_surrogate c \<or> low_surrogate c then [0xFFFD] else [c])"
| "utf8_text (c # d # cs) =
     (if high_surrogate c \<and> low_surrogate d then c # d # utf8_text cs
      else if high_surrogate c \<or> low_surrogate c then 0xFFFD # utf8_text (d # cs)
      else c # utf8_text (d # cs))"

section \<open>Responses\<close>

text \<open>
  The JSON body of a response. \<open>Fields\<close> is a flat object of string-valued fields, in
  the order the source writes them: the error envelope and the delete message.
\<close>

record user_row =
  user_id :: int
  user_email :: jsstring
  user_password_hash :: jsstring
  user_created_at :: nat

record todo_row =
  todo_id :: int
  todo_text :: jsstring
  todo_completed :: bool
  todo_user_id :: int
  todo_created_at :: nat

datatype json =
    Fields "(string \<times> jsstring) list"
  | DataTodos "todo_row list"
  | DataTodo todo_row
  | DataAuth int jsstring nat jsstring

record response =
  status :: nat
  json_body :: json

definition respond :: "nat \<Rightarrow> json \<Rightarrow> response" where
  "respond c b = \<lparr>status = c, json_body = b\<rparr>"

definition error_response :: "nat \<Rightarrow> jsstring \<Rightarrow> response" where
  "error_response c m = respond c (Fields [(''error'', m)])"

text \<open>The items that a response carries.\<close>

fun data_rows :: "json \<Rightarrow> todo_row list" where
  "data_rows (DataTodos rows) = rows"
| "data_rows (DataTodo row) = [row]"
| "data_rows b = []"

subsection \<open>The message literals of server.js\<close>

definition msg_login_required :: jsstring where
  "msg_login_required =
     [47196, 44536, 51064, 51060, 32, 54596, 50836, 54633, 45768, 45796, 46]"

definition msg_login_expired :: jsstring where
  "msg_login_expired =
     [47196, 44536, 51064, 51060, 32, 47564, 47308, 46104, 50632, 49845, 45768, 45796, 46,
      32, 45796, 49884, 32, 47196, 44536, 51064, 54644, 51452, 49464, 50836, 46]"

definition msg_invalid_token :: jsstring where
  "msg_invalid_token =
     [50976, 54952, 54616, 51648, 32, 50506, 51008, 32, 53664, 53360, 51077, 45768, 45796, 46]"

definition msg_credentials_required :: jsstring where
  "msg_credentials_required =
     [51060, 47700, 51068, 44284, 32, 48708, 48128, 48264, 54840, 47484, 32, 51077, 47141,
      54644, 51452, 49464, 50836, 46]"

definition msg_email_format :: jsstring where
  "msg_email_format =
     [50732, 48148, 47480, 32, 51060, 47700, 51068, 32, 54805, 49885, 51012, 32, 51077,
      47141, 54644, 51452, 49464, 50836, 46]"

definition msg_password_short :: jsstring where
  "msg_password_short =
     [48708, 48128, 48264, 54840, 45716, 32, 54, 51088, 32, 51060, 49345, 51060, 50612,
      50556, 32, 54633, 45768, 45796, 46]"

definition msg_email_taken :: jsstring where
  "msg_email_taken =
     [51060, 48120, 32, 44032, 51077, 46108, 32, 51060, 47700, 51068, 51077, 45768, 45796, 46]"

definition msg_server_error :: jsstring where
  "msg_server_error =
     [49436, 48260, 32, 50724, 47448, 44032, 32, 48156, 49373, 54664, 49845, 45768, 45796, 46]"

definition msg_bad_credentials :: jsstring where
  "msg_bad_credentials =
     [51060, 47700, 51068, 32, 46608, 45716, 32, 48708, 48128, 48264, 54840, 44032, 32,
      50732, 48148, 47476, 51648, 32, 50506, 49845, 45768, 45796, 46]"

definition msg_no_todos_table :: jsstring where
  "msg_no_todos_table =
     [116, 111, 100, 111, 115, 32, 53580, 51060, 48660, 51060, 32, 51316, 51116, 54616,
      51648, 32, 50506, 49845, 45768, 45796, 46, 32, 45936, 51060, 53552, 48288, 51060,
      49828, 47484, 32, 54869, 51064, 54644, 51452, 49464, 50836, 46]"

definition msg_text_required :: jsstring where
  "msg_text_required =
     [54624, 32, 51068, 32, 45236, 50857, 51012, 32, 51077, 47141, 54644, 51452, 49464,
      50836, 46]"

definition msg_completed_boolean :: jsstring where
  "msg_completed_boolean =
     [99, 111, 109, 112, 108, 101, 116, 101, 100, 45716, 32, 116, 114, 117, 101, 32, 46608,
      45716, 32, 102, 97, 108, 115, 101, 50668, 50556, 32, 54633, 45768, 45796, 46]"

definition msg_todo_not_found :: jsstring where
  "msg_todo_not_found =
     [54644, 45817, 32, 54624, 32, 51068, 51012, 32, 52286, 51012, 32, 49688, 32, 50630,
      49845, 45768, 45796, 46]"

definition msg_todo_deleted :: jsstring where
  "msg_todo_deleted =
     [54624, 32, 51068, 51060, 32, 49325, 51228, 46104, 50632, 49845, 45768, 45796, 46]"

text \<open>The catch block shared by the handlers: the generic message and, beside it,
  \<^verbatim>\<open>details: err.message\<close>.\<close>

definition server_error :: "exn \<Rightarrow> response" where
  "server_error e =
     respond 500 (Fields [(''error'', msg_server_error), (''details'', err_message e)])"

section \<open>The collaborators outside the repository\<close>

text \<open>
  The libraries and the runtime are taken at their interface, one environment per
  request: \<^verbatim>\<open>String.prototype.toLowerCase\<close>; \<^verbatim>\<open>jwt.verify(token, JWT_SECRET)\<close>, which
  returns the decoded payload or throws an error with a name (\<^verbatim>\<open>TokenExpiredError\<close> for
  a good signature past its expiry, \<^verbatim>\<open>JsonWebTokenError\<close> for a malformed token or a bad
  signature); \<^verbatim>\<open>jwt.sign\<close>; \<^verbatim>\<open>bcrypt.hash\<close> and \<^verbatim>\<open>bcrypt.compare\<close> on strings; the
  store's conversion of a text parameter to \<^verbatim>\<open>BIGINT\<close>, which fails with a store error;
  and the store's clock \<^verbatim>\<open>NOW()\<close>.
\<close>

record token_payload =
  userId :: int
  email :: jsstring

datatype jwt_outcome = Decoded token_payload | Throws exn

record env =
  toLowerCase :: "jsstring \<Rightarrow> jsstring"
  jwt_verify :: "jsstring \<Rightarrow> jwt_outcome"
  jwt_sign :: "token_payload \<Rightarrow> jsstring"
  bcrypt_hash :: "jsstring \<Rightarrow> jsstring"
  bcrypt_compare :: "jsstring \<Rightarrow> jsstring \<Rightarrow> bool"
  int8_in :: "jsstring \<Rightarrow> exn + int"
  pg_now :: nat

section \<open>The access gate: authenticateToken\<close>

text \<open>\<^verbatim>\<open>authHeader && authHeader.split(' ')[1]\<close>: an absent header gives undefined, an
  empty one gives itself, any other its second space-separated component.\<close>

definition extract_token :: "jsstring option \<Rightarrow> jsstring option" where
  "extract_token authHeader =
     (case authHeader of
        None \<Rightarrow> None
      | Some h \<Rightarrow> if h = [] then Some [] else index (split_sp h) 1)"

datatype gate = Rejected response | Next token_payload

definition authenticateToken :: "env \<Rightarrow> jsstring option \<Rightarrow> gate" where
  "authenticateToken E authHeader =
     (case extract_token authHeader of
        None \<Rightarrow> Rejected (error_response 401 msg_login_required)
      | Some token \<Rightarrow>
          if token = [] then Rejected (error_response 401 msg_login_required)
          else (case jwt_verify E token of
                  Decoded decoded \<Rightarrow> Next decoded
                | Throws err \<Rightarrow>
                    if err_name err = ''TokenExpiredError''
                    then Rejected (error_response 401 msg_login_expired)
                    else Rejected (error_response 403 msg_invalid_token)))"

section \<open>The store: tables users and todos\<close>

text \<open>
  The two tables of \<^verbatim>\<open>initializeDatabase\<close>, rows in insertion order, each with the next
  value of its \<^verbatim>\<open>BIGSERIAL\<close> sequence. \<open>log\<close> records every statement handed to
  \<^verbatim>\<open>pool.query\<close>, whether it succeeds or not. The store is taken as reachable: the
  errors it raises are those its data and its parameters decide (a unique or foreign-key
  violation, a parameter that is no number, a text that it cannot hold).
\<close>

datatype stmt =
    InsertUser
  | SelectUserByEmail
  | SelectTodos
  | InsertTodo
  | UpdateTodo
  | DeleteTodo

record db =
  users :: "user_row list"
  users_id_seq :: int
  todos :: "todo_row list"
  todos_id_seq :: int
  log :: "stmt list"

definition pg_error :: "string \<Rightarrow> string \<Rightarrow> exn" where
  "pg_error c m = \<lparr>err_name = ''error'', err_code = Some c, err_message = js m\<rparr>"

definition issue :: "stmt \<Rightarrow> db \<Rightarrow> db" where
  "issue q d = d\<lparr>log := log d @ [q]\<rparr>"

text \<open>The text of an item as the store takes it: the driver's encoding of the string,
  refused when it holds the code unit 0. The refusal comes when the statement is bound,
  before anything of it is executed.\<close>

definition text_in :: "jsstring \<Rightarrow> exn + jsstring" where
  "text_in s =
     (if list_ex (\<lambda>c. c = 0) s
      then Inl (pg_error ''22021'' ''invalid byte sequence for encoding UTF8: 0x00'')
      else Inr (utf8_text s))"

text \<open>\<^verbatim>\<open>INSERT INTO users (email, password_hash) VALUES ($1, $2) RETURNING id, email,
  created_at\<close>. The sequence value is drawn before \<^verbatim>\<open>email TEXT NOT NULL UNIQUE\<close> is
  checked, so a rejected insert uses one up and adds no row.\<close>

definition insert_user :: "nat \<Rightarrow> jsstring \<Rightarrow> jsstring \<Rightarrow> db \<Rightarrow> (exn + user_row) \<times> db" where
  "insert_user now e h d =
     (let row = \<lparr>user_id = users_id_seq d, user_email = e, user_password_hash = h,
                 user_created_at = now\<rparr>;
          d1 = (issue InsertUser d)\<lparr>users_id_seq := users_id_seq d + 1\<rparr>
      in if list_ex (\<lambda>u. user_email u = e) (users d)
         then (Inl (pg_error ''23505''
                 ''duplicate key value violates unique constraint users_email_key''), d1)
         else (Inr row, d1\<lparr>users := users d @ [row]\<rparr>))"

text \<open>\<^verbatim>\<open>SELECT * FROM users WHERE email = $1\<close>\<close>

definition select_user_by_email :: "jsstring \<Rightarrow> db \<Rightarrow> (exn + user_row list) \<times> db" where
  "select_user_by_email e d =
     (Inr (filter (\<lambda>u. user_email u = e) (users d)), issue SelectUserByEmail d)"

text \<open>\<^verbatim>\<open>SELECT * FROM todos WHERE user_id = $1 ORDER BY created_at DESC\<close>: the rows of the
  owner, latest first. SQL leaves the order of rows of equal time open; they are kept in
  insertion order here, the order in which the store reads the table.\<close>

definition select_todos :: "int \<Rightarrow> db \<Rightarrow> (exn + todo_row list) \<times> db" where
  "select_todos uid d =
     (Inr (sort_key (\<lambda>t. - int (todo_created_at t))
             (filter (\<lambda>t. todo_user_id t = uid) (todos d))),
      issue SelectTodos d)"

text \<open>\<^verbatim>\<open>INSERT INTO todos (text, completed, user_id, created_at) VALUES ($1, $2, $3, NOW())
  RETURNING *\<close>, with \<^verbatim>\<open>user_id BIGINT NOT NULL REFERENCES users(id)\<close>. The row that
  comes back has the text as the store holds it.\<close>

definition insert_todo :: "nat \<Rightarrow> jsstring \<Rightarrow> bool \<Rightarrow> int \<Rightarrow> db \<Rightarrow> (exn + todo_row) \<times> db" where
  "insert_todo now txt c uid d =
     (case text_in txt of
        Inl e \<Rightarrow> (Inl e, issue InsertTodo d)
      | Inr stored \<Rightarrow>
          (let row = \<lparr>todo_id = todos_id_seq d, todo_text = stored, todo_completed = c,
                      todo_user_id = uid, todo_created_at = now\<rparr>;
               d1 = (issue InsertTodo d)\<lparr>todos_id_seq := todos_id_seq d + 1\<rparr>
           in if list_ex (\<lambda>u. user_id u = uid) (users d)
              then (Inr row, d1\<lparr>todos := todos d @ [row]\<rparr>)
              else (Inl (pg_error ''23503''
                      ''insert or update on table todos violates foreign key constraint todos_user_id_fkey''), d1)))"

text \<open>\<^verbatim>\<open>UPDATE todos SET completed = $1 WHERE id = $2 AND user_id = $3 RETURNING *\<close>; the
  id arrives as the text of the URL and the store converts it.\<close>

definition update_todo :: "env \<Rightarrow> bool \<Rightarrow> jsstring \<Rightarrow> int \<Rightarrow> db \<Rightarrow> (exn + todo_row list) \<times> db" where
  "update_todo E c id_text uid d =
     (case int8_in E id_text of
        Inl e \<Rightarrow> (Inl e, issue UpdateTodo d)
      | Inr i \<Rightarrow>
          (let hit = (\<lambda>t. todo_id t = i \<and> todo_user_id t = uid);
               ts = map (\<lambda>t. if hit t then t\<lparr>todo_completed := c\<rparr> else t) (todos d)
           in (Inr (filter hit ts), (issue UpdateTodo d)\<lparr>todos := ts\<rparr>)))"

text \<open>\<^verbatim>\<open>DELETE FROM todos WHERE id = $1 AND user_id = $2\<close>; the result is the row count.\<close>

definition delete_todo :: "env \<Rightarrow> jsstring \<Rightarrow> int \<Rightarrow> db \<Rightarrow> (exn + nat) \<times> db" where
  "delete_todo E id_text uid d =
     (case int8_in E id_text of
        Inl e \<Rightarrow> (Inl e, issue DeleteTodo d)
      | Inr i \<Rightarrow>
          (let hit = (\<lambda>t. todo_id t = i \<and> todo_user_id t = uid)
           in (Inr (length (filter hit (todos d))),
               (issue DeleteTodo d)\<lparr>todos := filter (\<lambda>t. \<not> hit t) (todos d)\<rparr>)))"

text \<open>The constraints of the schema: primary keys drawn from the sequences, unique
  emails, and the owner of every item an account.\<close>

definition constraints :: "db \<Rightarrow> bool" where
  "constraints d \<longleftrightarrow>
     distinct (map user_id (users d)) \<and> (\<forall>a\<in>set (users d). user_id a < users_id_seq d)
     \<and> distinct (map user_email (users d))
     \<and> distinct (map todo_id (todos d)) \<and> (\<forall>t\<in>set (todos d). todo_id t < todos_id_seq d)
     \<and> (\<forall>t\<in>set (todos d). \<exists>a\<in>set (users d). user_id a = todo_user_id t)"

section \<open>Registration and login\<close>

text \<open>\<^verbatim>\<open>/^[^\s@]+@[^\s@]+\.[^\s@]+$/\<close>: the first run of characters that are neither space
  nor \<^verbatim>\<open>@\<close> is not empty and ends at an \<^verbatim>\<open>@\<close>; what follows has only such characters,
  with a dot that is neither its first nor its last.\<close>

definition plain :: "nat \<Rightarrow> bool" where
  "plain c \<longleftrightarrow> \<not> is_space c \<and> c \<noteq> 64"

definition emailRegex_test :: "jsstring \<Rightarrow> bool" where
  "emailRegex_test s =
     (takeWhile plain s \<noteq> [] \<and>
      (case dropWhile plain s of
         [] \<Rightarrow> False
       | c # r \<Rightarrow> c = 64 \<and> list_all plain r \<and> list_ex (\<lambda>i. r ! i = 46) [1 ..< length r - 1]))"

text \<open>The string conversion that \<^verbatim>\<open>RegExp.prototype.test\<close> applies to its argument
  (numbers in plain decimal notation).\<close>

fun digits :: "nat \<Rightarrow> jsstring" where
  "digits n = (if n < 10 then [48 + n] else digits (n div 10) @ [48 + n mod 10])"

declare digits.simps [simp del]

fun to_string :: "jsval \<Rightarrow> jsstring" where
  "to_string JUndefined = js ''undefined''"
| "to_string JNull = js ''null''"
| "to_string (JBool b) = (if b then js ''true'' else js ''false'')"
| "to_string (JNum n) = (if n < 0 then 45 # digits (nat (- n)) else digits (nat n))"
| "to_string (JStr s) = s"
| "to_string (JOther s b) = s"

text \<open>\<^verbatim>\<open>password.length < 6\<close>: a boolean or a number has no length, and undefined is not
  below 6; reading a property of null or undefined throws.\<close>

fun length_lt_6 :: "jsval \<Rightarrow> exn + bool" where
  "length_lt_6 (JStr s) = Inr (length s < 6)"
| "length_lt_6 (JOther s b) = Inr b"
| "length_lt_6 (JBool b) = Inr False"
| "length_lt_6 (JNum n) = Inr False"
| "length_lt_6 v = Inl (TypeError ''Cannot read properties of undefined (reading length)'')"

text \<open>\<^verbatim>\<open>email.toLowerCase().trim()\<close>: only a string has the method.\<close>

fun normalize :: "env \<Rightarrow> jsval \<Rightarrow> exn + jsstring" where
  "normalize E (JStr s) = Inr (trim (toLowerCase E s))"
| "normalize E v = Inl (TypeError ''email.toLowerCase is not a function'')"

text \<open>\<^verbatim>\<open>bcrypt.hash(password, SALT_ROUNDS)\<close> and \<^verbatim>\<open>bcrypt.compare(password, hash)\<close> reject
  data that is no string.\<close>

definition bcrypt_error :: "string \<Rightarrow> exn" where
  "bcrypt_error m = \<lparr>err_name = ''Error'', err_code = None, err_message = js m\<rparr>"

fun hash_password :: "env \<Rightarrow> jsval \<Rightarrow> exn + jsstring" where
  "hash_password E (JStr s) = Inr (bcrypt_hash E s)"
| "hash_password E v = Inl (bcrypt_error
     ''data must be a string or Buffer and salt must either be a salt string or a number of rounds'')"

fun compare_password :: "env \<Rightarrow> jsval \<Rightarrow> jsstring \<Rightarrow> exn + bool" where
  "compare_password E (JStr s) h = Inr (bcrypt_compare E s h)"
| "compare_password E v h = Inl (bcrypt_error ''data and hash must be strings'')"

definition auth_success :: "env \<Rightarrow> user_row \<Rightarrow> response" where
  "auth_success E u =
     respond 200 (DataAuth (user_id u) (user_email u) (user_created_at u)
       (jwt_sign E \<lparr>userId = user_id u, email = user_email u\<rparr>))"

text \<open>The catch block of the registration handler.\<close>

definition register_catch :: "exn \<Rightarrow> response" where
  "register_catch e =
     (if err_code e = Some ''23505'' then error_response 409 msg_email_taken
      else server_error e)"

definition register :: "env \<Rightarrow> body \<Rightarrow> db \<Rightarrow> response \<times> db" where
  "register E b d =
     (case destructure b ''email'' of
        Inl e \<Rightarrow> (register_catch e, d)
      | Inr em \<Rightarrow>
     (case destructure b ''password'' of
        Inl e \<Rightarrow> (register_catch e, d)
      | Inr pw \<Rightarrow>
     (if \<not> truthy em \<or> \<not> truthy pw then (error_response 400 msg_credentials_required, d)
      else if \<not> emailRegex_test (to_string em) then (error_response 400 msg_email_format, d)
      else
     (case length_lt_6 pw of
        Inl e \<Rightarrow> (register_catch e, d)
      | Inr short \<Rightarrow>
     (if short then (error_response 400 msg_password_short, d)
      else
     (case hash_password E pw of
        Inl e \<Rightarrow> (register_catch e, d)
      | Inr h \<Rightarrow>
     (case normalize E em of
        Inl e \<Rightarrow> (register_catch e, d)
      | Inr n \<Rightarrow>
     (case insert_user (pg_now E) n h d of
        (Inl e, d1) \<Rightarrow> (register_catch e, d1)
      | (Inr u, d1) \<Rightarrow> (auth_success E u, d1)))))))))"

definition login :: "env \<Rightarrow> body \<Rightarrow> db \<Rightarrow> response \<times> db" where
  "login E b d =
     (case destructure b ''email'' of
        Inl e \<Rightarrow> (server_error e, d)
      | Inr em \<Rightarrow>
     (case destructure b ''password'' of
        Inl e \<Rightarrow> (server_error e, d)
      | Inr pw \<Rightarrow>
     (if \<not> truthy em \<or> \<not> truthy pw then (error_response 400 msg_credentials_required, d)
      else
     (case normalize E em of
        Inl e \<Rightarrow> (server_error e, d)
      | Inr n \<Rightarrow>
     (case select_user_by_email n d of
        (Inl e, d1) \<Rightarrow> (server_error e, d1)
      | (Inr [], d1) \<Rightarrow> (error_response 401 msg_bad_credentials, d1)
      | (Inr (u # _), d1) \<Rightarrow>
     (case compare_password E pw (user_password_hash u) of
        Inl e \<Rightarrow> (server_error e, d1)
      | Inr isValidPassword \<Rightarrow>
          if \<not> isValidPassword then (error_response 401 msg_bad_credentials, d1)
          else (auth_success E u, d1)))))))"

section \<open>The to-do handlers, behind the gate\<close>

record request =
  authorization :: "jsstring option"
  params_id :: jsstring
  req_body :: body

text \<open>A route \<^verbatim>\<open>app.METHOD(path, authenticateToken, handler)\<close>: the handler runs only
  when the gate calls \<^verbatim>\<open>next()\<close>, with the decoded payload as \<^verbatim>\<open>req.user\<close>.\<close>

definition protected ::
  "env \<Rightarrow> (env \<Rightarrow> token_payload \<Rightarrow> request \<Rightarrow> db \<Rightarrow> response \<times> db)
       \<Rightarrow> request \<Rightarrow> db \<Rightarrow> response \<times> db" where
  "protected E handler req d =
     (case authenticateToken E (authorization req) of
        Rejected r \<Rightarrow> (r, d)
      | Next u \<Rightarrow> handler E u req d)"

definition get_todos :: "env \<Rightarrow> token_payload \<Rightarrow> request \<Rightarrow> db \<Rightarrow> response \<times> db" where
  "get_todos E u req d =
     (case select_todos (userId u) d of
        (Inr rows, d1) \<Rightarrow> (respond 200 (DataTodos rows), d1)
      | (Inl e, d1) \<Rightarrow>
          (if err_code e = Some ''42P01'' then error_response 500 msg_no_todos_table
           else server_error e, d1))"

text \<open>\<^verbatim>\<open>!text || text.trim() === ''\<close>: a falsy text is refused; a string is trimmed; any
  other truthy value has no \<^verbatim>\<open>trim\<close> to call.\<close>

fun text_missing :: "jsval \<Rightarrow> exn + bool" where
  "text_missing (JStr s) = Inr (s = [] \<or> trim s = [])"
| "text_missing v =
     (if truthy v then Inl (TypeError ''text.trim is not a function'') else Inr True)"

fun text_param :: "jsval \<Rightarrow> jsstring" where
  "text_param (JStr s) = s"
| "text_param v = to_string v"

definition post_todos :: "env \<Rightarrow> token_payload \<Rightarrow> request \<Rightarrow> db \<Rightarrow> response \<times> db" where
  "post_todos E u req d =
     (case destructure (req_body req) ''text'' of
        Inl e \<Rightarrow> (server_error e, d)
      | Inr txt \<Rightarrow>
     (case text_missing txt of
        Inl e \<Rightarrow> (server_error e, d)
      | Inr missing \<Rightarrow>
     (if missing then (error_response 400 msg_text_required, d)
      else
     (case insert_todo (pg_now E) (text_param txt) False (userId u) d of
        (Inl e, d1) \<Rightarrow> (server_error e, d1)
      | (Inr row, d1) \<Rightarrow> (respond 200 (DataTodo row), d1)))))"

definition patch_todos :: "env \<Rightarrow> token_payload \<Rightarrow> request \<Rightarrow> db \<Rightarrow> response \<times> db" where
  "patch_todos E u req d =
     (case destructure (req_body req) ''completed'' of
        Inl e \<Rightarrow> (server_error e, d)
      | Inr completed \<Rightarrow>
     (if \<not> is_boolean completed then (error_response 400 msg_completed_boolean, d)
      else
     (case update_todo E (the_boolean completed) (params_id req) (userId u) d of
        (Inl e, d1) \<Rightarrow> (server_error e, d1)
      | (Inr [], d1) \<Rightarrow> (error_response 404 msg_todo_not_found, d1)
      | (Inr (row # _), d1) \<Rightarrow> (respond 200 (DataTodo row), d1))))"

definition delete_todos :: "env \<Rightarrow> token_payload \<Rightarrow> request \<Rightarrow> db \<Rightarrow> response \<times> db" where
  "delete_todos E u req d =
     (case delete_todo E (params_id req) (userId u) d of
        (Inl e, d1) \<Rightarrow> (server_error e, d1)
      | (Inr rowCount, d1) \<Rightarrow>
          if rowCount = 0 then (error_response 404 msg_todo_not_found, d1)
          else (respond 200 (Fields [(''message'', msg_todo_deleted)]), d1))"

text \<open>The four routes under \<^verbatim>\<open>/api/todos\<close>.\<close>

definition GET_todos :: "env \<Rightarrow> request \<Rightarrow> db \<Rightarrow> response \<times> db" where
  "GET_todos E = protected E get_todos"

definition POST_todos :: "env \<Rightarrow> request \<Rightarrow> db \<Rightarrow> response \<times> db" where
  "POST_todos E = protected E post_todos"

definition PATCH_todos :: "env \<Rightarrow> request \<Rightarrow> db \<Rightarrow> response \<times> db" where
  "PATCH_todos E = protected E patch_todos"

definition DELETE_todos :: "env \<Rightarrow> request \<Rightarrow> db \<Rightarrow> response \<times> db" where
  "DELETE_todos E = protected E delete_todos"

section \<open>A concrete environment and store\<close>

text \<open>
  One instance of the collaborators, for evaluating the handlers: lower-casing of the ASCII
  letters; a verifier that knows the tokens of accounts 1 and 2, the token of an account
  3 that the store no longer has, and an expired token; a hash that marks its input;
  decimal conversion of ids; and a store with two accounts and three items.
\<close>

definition ascii_lower :: "jsstring \<Rightarrow> jsstring" where
  "ascii_lower s = map (\<lambda>c. if 65 \<le> c \<and> c \<le> 90 then c + 32 else c) s"

text \<open>The store's error for a text that is no number; its message quotes the text.\<close>

definition bigint_syntax_error :: "jsstring \<Rightarrow> exn" where
  "bigint_syntax_error s =
     \<lparr>err_name = ''error'', err_code = Some ''22P02'',
      err_message = js ''invalid input syntax for type bigint: '' @ 34 # s @ [34]\<rparr>"

definition decimal_in :: "jsstring \<Rightarrow> exn + int" where
  "decimal_in s =
     (if s \<noteq> [] \<and> list_all (\<lambda>c. 48 \<le> c \<and> c \<le> 57) s
      then Inr (foldl (\<lambda>a c. 10 * a + int (c - 48)) 0 s)
      else Inl (bigint_syntax_error s))"

definition jwt_error :: "string \<Rightarrow> string \<Rightarrow> exn" where
  "jwt_error n m = \<lparr>err_name = n, err_code = None, err_message = js m\<rparr>"

definition sample_verify :: "jsstring \<Rightarrow> jwt_outcome" where
  "sample_verify t =
     (if t = js ''tokA'' then Decoded \<lparr>userId = 1, email = js ''a@x.com''\<rparr>
      else if t = js ''tokB'' then Decoded \<lparr>userId = 2, email = js ''b@x.com''\<rparr>
      else if t = js ''tokC'' then Decoded \<lparr>userId = 3, email = js ''c@x.com''\<rparr>
      else if t = js ''old'' then Throws (jwt_error ''TokenExpiredError'' ''jwt expired'')
      else Throws (jwt_error ''JsonWebTokenError'' ''jwt malformed''))"

definition sample_env :: env where
  "sample_env =
     \<lparr>toLowerCase = ascii_lower,
      jwt_verify = sample_verify,
      jwt_sign = (\<lambda>p. if userId p = 1 then js ''tokA'' else js ''tokB''),
      bcrypt_hash = (\<lambda>s. 36 # s),
      bcrypt_compare = (\<lambda>s h. h = 36 # s),
      int8_in = decimal_in,
      pg_now = 100\<rparr>"

definition sample_db :: db where
  "sample_db =
     \<lparr>users =
        [\<lparr>user_id = 1, user_email = js ''a@x.com'',
          user_password_hash = 36 # js ''secret1'', user_created_at = 10\<rparr>,
         \<lparr>user_id = 2, user_email = js ''b@x.com'',
          user_password_hash = 36 # js ''secret2'', user_created_at = 11\<rparr>],
      users_id_seq = 3,
      todos =
        [\<lparr>todo_id = 1, todo_text = js ''buy milk'', todo_completed = False,
          todo_user_id = 1, todo_created_at = 20\<rparr>,
         \<lparr>todo_id = 2, todo_text = js ''walk'', todo_completed = False,
          todo_user_id = 2, todo_created_at = 21\<rparr>,
         \<lparr>todo_id = 3, todo_text = js ''read'', todo_completed = True,
          todo_user_id = 1, todo_created_at = 22\<rparr>],
      todos_id_seq = 4,
      log = []\<rparr>"

definition request_of :: "string option \<Rightarrow> string \<Rightarrow> body \<Rightarrow> request" where
  "request_of h i b = \<lparr>authorization = map_option js h, params_id = js i, req_body = b\<rparr>"

definition credentials :: "string \<Rightarrow> string \<Rightarrow> body" where
  "credentials e p = Body [(js ''email'', JStr (js e)), (js ''password'', JStr (js p))]"

definition text_body :: "jsstring \<Rightarrow> body" where
  "text_body t = Body [(js ''text'', JStr t)]"

definition completed_body :: "jsval \<Rightarrow> body" where
  "completed_body v = Body [(js ''completed'', v)]"

definition item1 :: todo_row where
  "item1 = \<lparr>todo_id = 1, todo_text = js ''buy milk'', todo_completed = False,
            todo_user_id = 1, todo_created_at = 20\<rparr>"

section \<open>Facts about the string operations\<close>

lemma js_Nil_iff [simp]: "js s = [] \<longleftrightarrow> s = []"
  by (simp add: js_def)

lemma split_sp_not_Nil: "split_sp s \<noteq> []"
  by (induction s) (auto split: list.splits)

lemma split_sp_plain: "32 \<notin> set s \<Longrightarrow> split_sp s = [s]"
  by (induction s) auto

lemma split_sp_cut: "32 \<notin> set a \<Longrightarrow> split_sp (a @ 32 # r) = a # split_sp r"
  by (induction a) auto

lemma hd_split_sp: "32 \<notin> set a \<Longrightarrow> r = [] \<or> hd r = 32 \<Longrightarrow> hd (split_sp (a @ r)) = a"
proof (cases r)
  case Nil then show "32 \<notin> set a \<Longrightarrow> ?thesis" by (simp add: split_sp_plain)
next
  case (Cons c cs)
  assume "32 \<notin> set a" "r = [] \<or> hd r = 32"
  with Cons show ?thesis by (simp add: split_sp_cut)
qed

lemma extract_second:
  assumes "32 \<notin> set scheme" "32 \<notin> set tok" "rest = [] \<or> hd rest = 32"
  shows "extract_token (Some (scheme @ 32 # tok @ rest)) = Some tok"
proof -
  have "split_sp (scheme @ 32 # tok @ rest) = scheme # split_sp (tok @ rest)"
    using assms(1) by (rule split_sp_cut)
  moreover have "split_sp (tok @ rest) \<noteq> []" by (rule split_sp_not_Nil)
  moreover have "hd (split_sp (tok @ rest)) = tok" using assms(2,3) by (rule hd_split_sp)
  ultimately show ?thesis
    by (cases "split_sp (tok @ rest)") (auto simp: extract_token_def index_def)
qed

lemma extract_bare: "32 \<notin> set h \<Longrightarrow> extract_token (Some h) = None \<or> extract_token (Some h) = Some []"
  by (simp add: extract_token_def index_def split_sp_plain)

lemma emailRegex_test_not_Nil: "emailRegex_test e \<Longrightarrow> e \<noteq> []"
  by (auto simp: emailRegex_test_def)

text \<open>The pattern read as a language: a non-empty run of plain characters, an \<^verbatim>\<open>@\<close>, a
  non-empty run, a dot, a non-empty run. A string that matches has no white space, so
  trimming it changes nothing.\<close>

lemma plain_dot: "plain 46" and not_plain_at: "\<not> plain 64"
  by (simp_all add: plain_def is_space_def)

lemma emailRegex_test_iff:
  "emailRegex_test s \<longleftrightarrow>
     (\<exists>a b c. s = a @ 64 # b @ 46 # c \<and> a \<noteq> [] \<and> b \<noteq> [] \<and> c \<noteq> []
        \<and> list_all plain a \<and> list_all plain b \<and> list_all plain c)"
proof
  assume t: "emailRegex_test s"
  let ?a = "takeWhile plain s"
  from t obtain r where r: "dropWhile plain s = 64 # r" and a: "?a \<noteq> []"
    and pr: "list_all plain r" and ex: "list_ex (\<lambda>i. r ! i = 46) [1 ..< length r - 1]"
    by (auto simp: emailRegex_test_def split: list.splits)
  from ex obtain i where i: "1 \<le> i" "i < length r - 1" "r ! i = 46"
    by (auto simp: list_ex_iff)
  then have cut: "take i r @ 46 # drop (Suc i) r = r"
    using id_take_nth_drop [of i r] by simp
  have "?a @ 64 # r = s"
    using r takeWhile_dropWhile_id [of plain s] by simp
  then have whole: "?a @ 64 # take i r @ 46 # drop (Suc i) r = s"
    by (simp only: cut)
  have parts: "take i r \<noteq> []" "drop (Suc i) r \<noteq> []"
    using i by auto
  have "list_all plain ?a"
    by (simp add: list_all_iff) (meson set_takeWhileD)
  moreover have "list_all plain (take i r)" "list_all plain (drop (Suc i) r)"
    using pr by (auto simp: list_all_iff dest: in_set_takeD in_set_dropD)
  ultimately show "\<exists>a b c. s = a @ 64 # b @ 46 # c \<and> a \<noteq> [] \<and> b \<noteq> [] \<and> c \<noteq> []
        \<and> list_all plain a \<and> list_all plain b \<and> list_all plain c"
    using a parts whole [symmetric]
    by (intro exI [of _ ?a] exI [of _ "take i r"] exI [of _ "drop (Suc i) r"]) blast
next
  assume "\<exists>a b c. s = a @ 64 # b @ 46 # c \<and> a \<noteq> [] \<and> b \<noteq> [] \<and> c \<noteq> []
        \<and> list_all plain a \<and> list_all plain b \<and> list_all plain c"
  then obtain a b c where s: "s = a @ 64 # b @ 46 # c" and ne: "a \<noteq> []" "b \<noteq> []" "c \<noteq> []"
    and pl: "list_all plain a" "list_all plain b" "list_all plain c"
    by blast
  have tw: "takeWhile plain s = a" and dw: "dropWhile plain s = 64 # b @ 46 # c"
    using pl(1) not_plain_at by (simp_all add: s list_all_iff)
  have "Suc 0 \<le> length b" "0 < length c"
    using ne by (simp_all add: Suc_le_eq)
  then have "length b \<in> set [1 ..< length (b @ 46 # c) - 1]"
    by simp
  moreover have "(b @ 46 # c) ! length b = 46"
    by simp
  ultimately have "list_ex (\<lambda>i. (b @ 46 # c) ! i = 46) [1 ..< length (b @ 46 # c) - 1]"
    unfolding list_ex_iff by blast
  then show "emailRegex_test s"
    using ne pl plain_dot by (simp add: emailRegex_test_def tw dw)
qed

lemma emailRegex_test_no_space:
  assumes "emailRegex_test s"
  shows "\<forall>c\<in>set s. \<not> is_space c"
proof -
  from assms obtain a b c where s: "s = a @ 64 # b @ 46 # c"
    and pl: "list_all plain a" "list_all plain b" "list_all plain c"
    unfolding emailRegex_test_iff by blast
  have "\<not> is_space 64" "\<not> is_space 46"
    by (simp_all add: is_space_def)
  then show ?thesis
    using pl by (auto simp: s list_all_iff plain_def)
qed

lemma dropWhile_none: "\<forall>x\<in>set xs. \<not> P x \<Longrightarrow> dropWhile P xs = xs"
  by (cases xs) auto

lemma trim_no_space: "\<forall>c\<in>set s. \<not> is_space c \<Longrightarrow> trim s = s"
  by (simp add: trim_def dropWhile_none)

lemma trim_Nil: "trim [] = []"
  by (simp add: trim_def)

lemma dropWhile_Nil_iff: "dropWhile P xs = [] \<longleftrightarrow> (\<forall>x\<in>set xs. P x)"
  by (induction xs) auto

lemma trim_Nil_iff: "trim s = [] \<longleftrightarrow> (\<forall>c\<in>set s. is_space c)"
proof
  assume "trim s = []"
  then have "dropWhile is_space (rev (dropWhile is_space s)) = []"
    by (simp add: trim_def)
  then have "\<forall>c\<in>set (dropWhile is_space s). is_space c"
    by (simp add: dropWhile_Nil_iff)
  then have "dropWhile is_space s = []"
    by (metis dropWhile_eq_Nil_conv hd_dropWhile list.set_sel(1))
  then show "\<forall>c\<in>set s. is_space c"
    by (simp add: dropWhile_Nil_iff)
next
  assume "\<forall>c\<in>set s. is_space c"
  then show "trim s = []"
    by (auto simp: trim_def dest: set_dropWhileD)
qed

lemma foldr_insort_first:
  "\<forall>t\<in>set xs. f x < f t \<Longrightarrow>
     foldr (insort_key f) xs [x] = x # foldr (insort_key f) xs []"
  by (induction xs) auto

lemma sort_key_new_first:
  "\<forall>t\<in>set xs. f x < f t \<Longrightarrow> sort_key f (xs @ [x]) = x # sort_key f xs"
  by (simp add: sort_key_def foldr_insort_first)

lemma latest_first:
  "sorted_wrt (\<lambda>a b. todo_created_at b \<le> todo_created_at a)
     (sort_key (\<lambda>t. - int (todo_created_at t)) xs)"
  using sorted_sort_key [of "\<lambda>t. - int (todo_created_at t)" xs]
  by (simp add: sorted_map)

lemma utf8_text_plain:
  "\<forall>c\<in>set s. \<not> high_surrogate c \<and> \<not> low_surrogate c \<Longrightarrow> utf8_text s = s"
  by (induction s rule: utf8_text.induct) auto

section \<open>Facts about responses and the store\<close>

lemma status_server_error [simp]: "status (server_error e) = 500"
  by (simp add: server_error_def respond_def)

lemma status_error_response [simp]: "status (error_response c m) = c"
  by (simp add: error_response_def respond_def)

lemma status_respond [simp]: "status (respond c b) = c" "json_body (respond c b) = b"
  by (simp_all add: respond_def)

lemma todos_issue [simp]: "todos (issue q d) = todos d"
  by (simp add: issue_def)

lemma insert_user_taken:
  assumes "\<exists>u\<in>set (users d). user_email u = n"
  shows "fst (insert_user now n h d) = Inl (pg_error ''23505''
            ''duplicate key value violates unique constraint users_email_key'')"
    and "users (snd (insert_user now n h d)) = users d"
    and "todos (snd (insert_user now n h d)) = todos d"
  using assms by (auto simp: insert_user_def issue_def list_ex_iff Let_def)

lemma register_catch_23505:
  "register_catch (pg_error ''23505'' m) = error_response 409 msg_email_taken"
  by (simp add: register_catch_def pg_error_def)

lemma register_keeps_todos: "todos (snd (register E b d)) = todos d"
  by (auto simp: register_def insert_user_def issue_def Let_def
        split: sum.splits prod.splits if_splits)

lemma select_todos_rows:
  "select_todos uid d = (Inr rows, d1) \<Longrightarrow>
     set rows = {t \<in> set (todos d). todo_user_id t = uid} \<and> todos d1 = todos d \<and> users d1 = users d"
  by (auto simp: select_todos_def issue_def)

lemma primary_key:
  assumes "distinct (map todo_id (todos d))" "t \<in> set (todos d)" "r \<in> set (todos d)"
    and "todo_id r = todo_id t"
  shows "r = t"
  using assms by (meson distinct_map inj_onD)

lemma update_todo_miss:
  assumes "int8_in E id_text = Inr i"
    and "\<forall>r\<in>set (todos d). \<not> (todo_id r = i \<and> todo_user_id r = uid)"
  shows "update_todo E c id_text uid d = (Inr [], issue UpdateTodo d)"
proof -
  have "map (\<lambda>t. if todo_id t = i \<and> todo_user_id t = uid then t\<lparr>todo_completed := c\<rparr> else t)
          (todos d) = todos d"
    using assms(2) by (intro map_idI) auto
  moreover have "filter (\<lambda>t. todo_id t = i \<and> todo_user_id t = uid) (todos d) = []"
    using assms(2) by (simp add: filter_empty_conv)
  ultimately show ?thesis
    using assms(1) by (simp add: update_todo_def issue_def)
qed

lemma delete_todo_miss:
  assumes "int8_in E id_text = Inr i"
    and "\<forall>r\<in>set (todos d). \<not> (todo_id r = i \<and> todo_user_id r = uid)"
  shows "delete_todo E id_text uid d = (Inr 0, issue DeleteTodo d)"
proof -
  have "filter (\<lambda>t. \<not> (todo_id t = i \<and> todo_user_id t = uid)) (todos d) = todos d"
    using assms(2) by (simp add: filter_id_conv)
  moreover have "filter (\<lambda>t. todo_id t = i \<and> todo_user_id t = uid) (todos d) = []"
    using assms(2) by (simp add: filter_empty_conv)
  ultimately show ?thesis
    using assms(1) by (simp add: delete_todo_def issue_def)
qed

lemma post_todos_accepts:
  assumes "destructure (req_body req) ''text'' = Inr (JStr T)" "trim T \<noteq> []" "0 \<notin> set T"
    and "\<exists>a\<in>set (users d). user_id a = userId u"
    and "row = \<lparr>todo_id = todos_id_seq d, todo_text = utf8_text T, todo_completed = False,
                todo_user_id = userId u, todo_created_at = pg_now E\<rparr>"
  shows "post_todos E u req d =
     (respond 200 (DataTodo row),
      (issue InsertTodo d)\<lparr>todos_id_seq := todos_id_seq d + 1, todos := todos d @ [row]\<rparr>)"
proof -
  have "T \<noteq> []" using assms(2) trim_Nil by auto
  then show ?thesis
    using assms
    by (simp add: post_todos_def insert_todo_def text_in_def list_ex_iff Let_def)
qed

lemma post_todos_refused_text:
  assumes "destructure (req_body req) ''text'' = Inr (JStr T)" "trim T \<noteq> []" "0 \<in> set T"
  shows "status (fst (post_todos E u req d)) = 500 \<and> todos (snd (post_todos E u req d)) = todos d"
proof -
  have "T \<noteq> []" using assms(2) trim_Nil by auto
  then show ?thesis
    using assms
    by (auto simp: post_todos_def insert_todo_def text_in_def list_ex_iff)
qed

lemma get_todos_listing:
  "fst (get_todos E u req d) =
     respond 200 (DataTodos (sort_key (\<lambda>t. - int (todo_created_at t))
       (filter (\<lambda>t. todo_user_id t = userId u) (todos d))))"
  by (simp add: get_todos_def select_todos_def)

lemma post_todos_blank:
  assumes "destructure (req_body req) ''text'' = Inr (JStr T)" "\<forall>c\<in>set T. is_space c"
  shows "post_todos E u req d = (error_response 400 msg_text_required, d)"
  using assms by (simp add: post_todos_def trim_Nil_iff)

text \<open>A request without a parsed body makes the destructuring throw: the catch block
  answers 500 and no statement is issued.\<close>

lemma patch_todos_no_body:
  "req_body req = NoBody \<Longrightarrow>
     status (fst (patch_todos E u req d)) = 500 \<and> snd (patch_todos E u req d) = d"
  by (simp add: patch_todos_def destructure_def)

lemma post_todos_no_body:
  "req_body req = NoBody \<Longrightarrow>
     status (fst (post_todos E u req d)) = 500 \<and> snd (post_todos E u req d) = d"
  by (simp add: post_todos_def destructure_def)

subsection \<open>The constraints hold in every store the handlers produce\<close>

lemma constraints_insert_user: "constraints d \<Longrightarrow> constraints (snd (insert_user now e h d))"
  by (auto simp: constraints_def insert_user_def issue_def Let_def list_ex_iff)

lemma constraints_select_user: "constraints d \<Longrightarrow> constraints (snd (select_user_by_email e d))"
  by (simp add: constraints_def select_user_by_email_def issue_def)

lemma constraints_select_todos: "constraints d \<Longrightarrow> constraints (snd (select_todos uid d))"
  by (simp add: constraints_def select_todos_def issue_def)

lemma constraints_insert_todo: "constraints d \<Longrightarrow> constraints (snd (insert_todo now t c uid d))"
  by (auto simp: constraints_def insert_todo_def text_in_def issue_def Let_def list_ex_iff)

lemma constraints_update_todo: "constraints d \<Longrightarrow> constraints (snd (update_todo E c i uid d))"
proof -
  have ids2: "\<And>P. todo_id \<circ> (\<lambda>t. if P t then t\<lparr>todo_completed := c\<rparr> else t) = todo_id"
    by (auto simp: fun_eq_iff)
  assume "constraints d"
  then show ?thesis
    by (cases "int8_in E i")
       (auto simp: constraints_def update_todo_def issue_def Let_def ids2)
qed

lemma constraints_delete_todo: "constraints d \<Longrightarrow> constraints (snd (delete_todo E i uid d))"
  by (cases "int8_in E i")
     (auto simp: constraints_def delete_todo_def issue_def Let_def distinct_map_filter)

lemma constraints_register: "constraints d \<Longrightarrow> constraints (snd (register E b d))"
  using constraints_insert_user
  by (auto simp: register_def split: sum.splits prod.splits if_splits) (metis snd_conv)+

lemma constraints_login: "constraints d \<Longrightarrow> constraints (snd (login E b d))"
  using constraints_select_user
  by (auto simp: login_def split: sum.splits prod.splits if_splits list.splits)
     (metis snd_conv)+

lemma constraints_protected:
  assumes "\<And>u. constraints d \<Longrightarrow> constraints (snd (handler E u req d))"
  shows "constraints d \<Longrightarrow> constraints (snd (protected E handler req d))"
  using assms by (simp add: protected_def split: gate.splits)

lemma constraints_get_todos: "constraints d \<Longrightarrow> constraints (snd (get_todos E u req d))"
  using constraints_select_todos [of d "userId u"]
  by (auto simp: get_todos_def split: sum.splits prod.splits)

lemma constraints_post_todos: "constraints d \<Longrightarrow> constraints (snd (post_todos E u req d))"
  using constraints_insert_todo
  by (auto simp: post_todos_def split: sum.splits prod.splits if_splits) (metis snd_conv)+

lemma constraints_patch_todos: "constraints d \<Longrightarrow> constraints (snd (patch_todos E u req d))"
  using constraints_update_todo
  by (auto simp: patch_todos_def split: sum.splits prod.splits if_splits list.splits)
     (metis snd_conv)+

lemma constraints_delete_todos: "constraints d \<Longrightarrow> constraints (snd (delete_todos E u req d))"
  using constraints_delete_todo
  by (auto simp: delete_todos_def split: sum.splits prod.splits if_splits) (metis snd_conv)+

lemma constraints_routes:
  assumes "constraints d"
  shows "constraints (snd (GET_todos E req d))" "constraints (snd (POST_todos E req d))"
    "constraints (snd (PATCH_todos E req d))" "constraints (snd (DELETE_todos E req d))"
  using assms
  by (simp_all add: GET_todos_def POST_todos_def PATCH_todos_def DELETE_todos_def
        constraints_protected constraints_get_todos constraints_post_todos
        constraints_patch_todos constraints_delete_todos)

lemma constraints_sample: "constraints sample_db"
  by (simp add: constraints_def sample_db_def js_def)

section \<open>Evaluation in the concrete environment\<close>

lemma request_of_simps [simp]:
  "authorization (request_of h i b) = map_option js h"
  "params_id (request_of h i b) = js i"
  "req_body (request_of h i b) = b"
  by (simp_all add: request_of_def)

lemma sample_extract [simp]:
  "extract_token None = None"
  "extract_token (Some (js ''Bearer old'')) = Some (js ''old'')"
  "extract_token (Some (js ''Bearer junk'')) = Some (js ''junk'')"
  "extract_token (Some (js ''Bearer tokA'')) = Some (js ''tokA'')"
  "extract_token (Some (js ''Bearer tokB'')) = Some (js ''tokB'')"
  "extract_token (Some (js ''Bearer tokC'')) = Some (js ''tokC'')"
  by (simp_all add: extract_token_def index_def js_def)

lemma sample_verify_simps [simp]:
  "jwt_verify sample_env (js ''old'') = Throws (jwt_error ''TokenExpiredError'' ''jwt expired'')"
  "jwt_verify sample_env (js ''junk'') = Throws (jwt_error ''JsonWebTokenError'' ''jwt malformed'')"
  "jwt_verify sample_env (js ''tokA'') = Decoded \<lparr>userId = 1, email = js ''a@x.com''\<rparr>"
  "jwt_verify sample_env (js ''tokB'') = Decoded \<lparr>userId = 2, email = js ''b@x.com''\<rparr>"
  "jwt_verify sample_env (js ''tokC'') = Decoded \<lparr>userId = 3, email = js ''c@x.com''\<rparr>"
  by (simp_all add: sample_env_def sample_verify_def js_def)

lemma sample_gate [simp]:
  "authenticateToken sample_env (Some (js ''Bearer tokA''))
     = Next \<lparr>userId = 1, email = js ''a@x.com''\<rparr>"
  "authenticateToken sample_env (Some (js ''Bearer tokB''))
     = Next \<lparr>userId = 2, email = js ''b@x.com''\<rparr>"
  "authenticateToken sample_env (Some (js ''Bearer tokC''))
     = Next \<lparr>userId = 3, email = js ''c@x.com''\<rparr>"
  by (simp_all add: authenticateToken_def)

lemma sample_lower [simp]:
  "toLowerCase sample_env = ascii_lower"
  "bcrypt_compare sample_env s h = (h = 36 # s)"
  "bcrypt_hash sample_env s = 36 # s"
  "int8_in sample_env = decimal_in"
  "pg_now sample_env = 100"
  by (simp_all add: sample_env_def)

lemma credentials_simps [simp]:
  "destructure (credentials e p) ''email'' = Inr (JStr (js e))"
  "destructure (credentials e p) ''password'' = Inr (JStr (js p))"
  by (simp_all add: credentials_def destructure_def js_def)

lemma text_body_simp [simp]: "destructure (text_body t) ''text'' = Inr (JStr t)"
  by (simp add: text_body_def destructure_def)

lemma completed_body_simp [simp]: "destructure (completed_body v) ''completed'' = Inr v"
  by (simp add: completed_body_def destructure_def)

lemma sample_ids [simp]:
  "decimal_in (js ''1'') = Inr 1"
  "decimal_in (js ''abc'') = Inl (bigint_syntax_error (js ''abc''))"
  by (simp_all add: decimal_in_def js_def)

section \<open>The access gate\<close>

text \<open>
  C2. The gate as a state machine, for every route \<open>protected E handler\<close> and whatever the
  handler is: when the extracted token is undefined or empty the response is 401 with the
  login-required message and the store is as before (the handler did not run); when
  verification throws \<^verbatim>\<open>TokenExpiredError\<close> the response is 401 with the re-login message;
  when it throws any other error the response is 403; when it returns a payload the
  route is the handler applied to that payload. The re-login message differs from the
  other two.
\<close>

theorem access_gate_state_machine:
  "(extract_token (authorization req) = None \<or> extract_token (authorization req) = Some []
      \<longrightarrow> protected E handler req d = (error_response 401 msg_login_required, d))
   \<and> (extract_token (authorization req) = Some token \<and> token \<noteq> []
        \<and> jwt_verify E token = Throws err \<and> err_name err = ''TokenExpiredError''
      \<longrightarrow> protected E handler req d = (error_response 401 msg_login_expired, d))
   \<and> (extract_token (authorization req) = Some token \<and> token \<noteq> []
        \<and> jwt_verify E token = Throws err \<and> err_name err \<noteq> ''TokenExpiredError''
      \<longrightarrow> protected E handler req d = (error_response 403 msg_invalid_token, d))
   \<and> (extract_token (authorization req) = Some token \<and> token \<noteq> []
        \<and> jwt_verify E token = Decoded decoded
      \<longrightarrow> protected E handler req d = handler E decoded req d)
   \<and> msg_login_expired \<noteq> msg_login_required \<and> msg_login_expired \<noteq> msg_invalid_token"
  by (auto simp: protected_def authenticateToken_def msg_login_expired_def
        msg_login_required_def msg_invalid_token_def)

theorem access_gate_state_machine_witness:
  "protected sample_env get_todos (request_of None '''' NoBody) sample_db
     = (error_response 401 msg_login_required, sample_db)
   \<and> protected sample_env get_todos (request_of (Some ''Bearer old'') '''' NoBody) sample_db
     = (error_response 401 msg_login_expired, sample_db)
   \<and> protected sample_env get_todos (request_of (Some ''Bearer junk'') '''' NoBody) sample_db
     = (error_response 403 msg_invalid_token, sample_db)
   \<and> protected sample_env get_todos (request_of (Some ''Bearer tokA'') '''' NoBody) sample_db
     = get_todos sample_env \<lparr>userId = 1, email = js ''a@x.com''\<rparr>
         (request_of (Some ''Bearer tokA'') '''' NoBody) sample_db"
  using access_gate_state_machine [where req = "request_of None '''' NoBody" and E = sample_env
      and handler = get_todos and d = sample_db and token = "[]"
      and err = "jwt_error ''JsonWebTokenError'' ''jwt malformed''"
      and decoded = "\<lparr>userId = 1, email = js ''a@x.com''\<rparr>"]
    access_gate_state_machine [where req = "request_of (Some ''Bearer old'') '''' NoBody"
      and token = "js ''old''" and E = sample_env and handler = get_todos and d = sample_db
      and err = "jwt_error ''TokenExpiredError'' ''jwt expired''"]
    access_gate_state_machine [where req = "request_of (Some ''Bearer junk'') '''' NoBody"
      and token = "js ''junk''" and E = sample_env and handler = get_todos and d = sample_db
      and err = "jwt_error ''JsonWebTokenError'' ''jwt malformed''"]
    access_gate_state_machine [where req = "request_of (Some ''Bearer tokA'') '''' NoBody"
      and token = "js ''tokA''" and E = sample_env and handler = get_todos and d = sample_db
      and decoded = "\<lparr>userId = 1, email = js ''a@x.com''\<rparr>"]
  by (simp add: jwt_error_def)

text \<open>
  C9. The gate takes the second space-separated component of the header, whatever the
  first is: a header made of any word without a space, a space and a token without a
  space (and possibly more after a further space) yields that token, and when the
  verifier accepts it the request proceeds with its payload. A header without a space,
  a bare token, is rejected with 401 and the login-required message, exactly as an
  absent header is.
\<close>

theorem token_extraction_ignores_scheme:
  "(32 \<notin> set scheme \<and> 32 \<notin> set tok \<and> (rest = [] \<or> hd rest = 32)
      \<longrightarrow> extract_token (Some (scheme @ 32 # tok @ rest)) = Some tok)
   \<and> (32 \<notin> set scheme \<and> 32 \<notin> set tok \<and> tok \<noteq> [] \<and> jwt_verify E tok = Decoded decoded
      \<longrightarrow> authenticateToken E (Some (scheme @ 32 # tok)) = Next decoded)
   \<and> (32 \<notin> set bare
      \<longrightarrow> authenticateToken E (Some bare) = Rejected (error_response 401 msg_login_required)
        \<and> authenticateToken E (Some bare) = authenticateToken E None)"
proof (intro conjI impI)
  assume "32 \<notin> set scheme \<and> 32 \<notin> set tok \<and> (rest = [] \<or> hd rest = 32)"
  then show "extract_token (Some (scheme @ 32 # tok @ rest)) = Some tok"
    by (simp add: extract_second)
next
  assume a: "32 \<notin> set scheme \<and> 32 \<notin> set tok \<and> tok \<noteq> [] \<and> jwt_verify E tok = Decoded decoded"
  then have "extract_token (Some (scheme @ 32 # tok @ [])) = Some tok"
    by (intro extract_second) simp_all
  with a show "authenticateToken E (Some (scheme @ 32 # tok)) = Next decoded"
    by (simp add: authenticateToken_def)
next
  assume "32 \<notin> set bare"
  then have "extract_token (Some bare) = None \<or> extract_token (Some bare) = Some []"
    by (rule extract_bare)
  then show "authenticateToken E (Some bare) = Rejected (error_response 401 msg_login_required)"
    by (auto simp: authenticateToken_def)
  moreover have "authenticateToken E None = Rejected (error_response 401 msg_login_required)"
    by (simp add: authenticateToken_def extract_token_def)
  ultimately show "authenticateToken E (Some bare) = authenticateToken E None"
    by simp
qed

theorem token_extraction_ignores_scheme_witness:
  "extract_token (Some (js ''Basic tokA trailing'')) = Some (js ''tokA'')
   \<and> authenticateToken sample_env (Some (js ''Basic tokA''))
       = Next \<lparr>userId = 1, email = js ''a@x.com''\<rparr>
   \<and> authenticateToken sample_env (Some (js ''tokA''))
       = Rejected (error_response 401 msg_login_required)"
  using token_extraction_ignores_scheme [where scheme = "js ''Basic''" and tok = "js ''tokA''"
      and rest = "js '' trailing''" and E = sample_env and bare = "js ''tokA''"
      and decoded = "\<lparr>userId = 1, email = js ''a@x.com''\<rparr>"]
  by (simp add: js_def sample_env_def sample_verify_def)

section \<open>Login and registration\<close>

lemma login_unknown:
  assumes "destructure b ''email'' = Inr (JStr e)" "destructure b ''password'' = Inr (JStr p)"
    and "e \<noteq> []" "p \<noteq> []"
    and "\<forall>u\<in>set (users d). user_email u \<noteq> trim (toLowerCase E e)"
  shows "fst (login E b d) = error_response 401 msg_bad_credentials"
proof -
  have "filter (\<lambda>u. user_email u = trim (toLowerCase E e)) (users d) = []"
    using assms(5) by (simp add: filter_empty_conv)
  then show ?thesis
    using assms(1-4) by (simp add: login_def select_user_by_email_def)
qed

lemma login_wrong_password:
  assumes "destructure b ''email'' = Inr (JStr e)" "destructure b ''password'' = Inr (JStr p)"
    and "e \<noteq> []" "p \<noteq> []"
    and "\<forall>u\<in>set (users d). user_email u = trim (toLowerCase E e)
           \<longrightarrow> \<not> bcrypt_compare E p (user_password_hash u)"
  shows "fst (login E b d) = error_response 401 msg_bad_credentials"
proof (cases "filter (\<lambda>u. user_email u = trim (toLowerCase E e)) (users d)")
  case Nil
  then show ?thesis
    using assms(1-4) by (simp add: login_def select_user_by_email_def)
next
  case (Cons u rest)
  then have "u \<in> set (filter (\<lambda>u. user_email u = trim (toLowerCase E e)) (users d))"
    by simp
  then have "\<not> bcrypt_compare E p (user_password_hash u)"
    using assms(5) by simp
  with Cons show ?thesis
    using assms(1-4) by (simp add: login_def select_user_by_email_def)
qed



text \<open>
  C6, as the code has it. A registration request whose email is a string that, lower-cased
  and trimmed, is the email of an existing account never changes the table of accounts:
  no row is added, none is overwritten. When the request also passes validation (the
  email as sent matches the pattern, which admits no white space, and the password is a
  string of at least 6 characters) the response is 409 with the already-registered
  message.
\<close>

theorem register_duplicate_rejected:
  "(destructure b ''email'' = Inr (JStr e)
      \<and> (\<exists>u\<in>set (users d). user_email u = trim (toLowerCase E e))
     \<longrightarrow> users (snd (register E b d)) = users d \<and> todos (snd (register E b d)) = todos d)
   \<and> (destructure b ''email'' = Inr (JStr e) \<and> destructure b ''password'' = Inr (JStr p)
      \<and> emailRegex_test e \<and> 6 \<le> length p
      \<and> (\<exists>u\<in>set (users d). user_email u = trim (toLowerCase E e))
     \<longrightarrow> fst (register E b d) = error_response 409 msg_email_taken)"
proof (intro conjI impI)
  assume a: "destructure b ''email'' = Inr (JStr e)
      \<and> (\<exists>u\<in>set (users d). user_email u = trim (toLowerCase E e))"
  then have "\<And>h. users (snd (insert_user (pg_now E) (trim (toLowerCase E e)) h d)) = users d"
    by (intro insert_user_taken(2)) simp
  with a show "users (snd (register E b d)) = users d"
    by (auto simp: register_def split: sum.splits prod.splits if_splits)
       (metis snd_conv)+
  show "todos (snd (register E b d)) = todos d"
    by (rule register_keeps_todos)
next
  assume a: "destructure b ''email'' = Inr (JStr e) \<and> destructure b ''password'' = Inr (JStr p)
      \<and> emailRegex_test e \<and> 6 \<le> length p
      \<and> (\<exists>u\<in>set (users d). user_email u = trim (toLowerCase E e))"
  then have e: "e \<noteq> []" and p: "p \<noteq> []"
    by (auto simp: emailRegex_test_not_Nil)
  have "fst (insert_user (pg_now E) (trim (toLowerCase E e)) (bcrypt_hash E p) d)
      = Inl (pg_error ''23505'' ''duplicate key value violates unique constraint users_email_key'')"
    using a by (intro insert_user_taken(1)) simp
  then show "fst (register E b d) = error_response 409 msg_email_taken"
    using a e p
    by (auto simp: register_def register_catch_23505 split: sum.splits prod.splits)
qed

theorem register_duplicate_rejected_witness:
  "users (snd (register sample_env (credentials ''A@x.com'' ''secret9'') sample_db))
     = users sample_db
   \<and> fst (register sample_env (credentials ''A@x.com'' ''secret9'') sample_db)
     = error_response 409 msg_email_taken"
proof -
  have known: "\<exists>u\<in>set (users sample_db).
      user_email u = trim (toLowerCase sample_env (js ''A@x.com''))"
    by (simp add: sample_db_def ascii_lower_def trim_def is_space_def js_def)
  have ok: "emailRegex_test (js ''A@x.com'')" "6 \<le> length (js ''secret9'')"
    by (simp_all add: emailRegex_test_def plain_def is_space_def js_def)
  show ?thesis
    using register_duplicate_rejected [where b = "credentials ''A@x.com'' ''secret9''"
      and e = "js ''A@x.com''" and p = "js ''secret9''" and d = sample_db and E = sample_env]
      known ok
    by simp
qed

text \<open>
  The claim as written fails for an email that matches only after trimming: the pattern
  is tested on the email as sent, before \<^verbatim>\<open>trim\<close>, so an email with a leading space that
  trims to the email of the first account is answered 400, not 409.
\<close>

theorem register_untrimmed_duplicate_counterexample:
  "trim (toLowerCase sample_env (js '' a@x.com'')) = user_email (hd (users sample_db))
   \<and> status (fst (register sample_env (credentials '' a@x.com'' ''secret1'') sample_db)) = 400
   \<and> status (fst (register sample_env (credentials '' a@x.com'' ''secret1'') sample_db)) \<noteq> 409"
  by (simp add: register_def sample_db_def ascii_lower_def trim_def is_space_def
        emailRegex_test_def plain_def error_response_def respond_def js_def)

section \<open>The to-do routes\<close>

lemma patch_non_boolean_parsed:
  assumes "authenticateToken E (authorization req) = Next u"
    and "destructure (req_body req) ''completed'' = Inr completed"
    and "\<not> is_boolean completed"
  shows "PATCH_todos E req d = (error_response 400 msg_completed_boolean, d)"
  using assms by (simp add: PATCH_todos_def protected_def patch_todos_def)

text \<open>
  C8. The check of \<^verbatim>\<open>completed\<close> answers 400 before the store when the body was parsed
  (the lemma above). It comes after \<^verbatim>\<open>const { completed } = req.body\<close>, though: a
  \<^verbatim>\<open>PATCH\<close> that carries no parsed body, and so no boolean \<^verbatim>\<open>completed\<close>, makes the
  destructuring throw, and the catch block answers 500 with the runtime's message as
  details, not 400. No statement is issued; the store is as before.
\<close>

theorem patch_without_body_server_error:
  "PATCH_todos sample_env (request_of (Some ''Bearer tokA'') ''1'' NoBody) sample_db
     = (respond 500 (Fields [(''error'', msg_server_error),
          (''details'',
           js ''Cannot destructure property completed of req.body as it is undefined.'')]),
        sample_db)
   \<and> status (fst (PATCH_todos sample_env
         (request_of (Some ''Bearer tokA'') ''1'' NoBody) sample_db)) \<noteq> 400"
  by (simp add: PATCH_todos_def protected_def patch_todos_def destructure_def
        server_error_def TypeError_def respond_def)

text \<open>
  C1, as the code has it. Let an item belong to an account other than the caller's, in a
  store whose item ids are distinct. \<^verbatim>\<open>GET /api/todos\<close> answers 200 with items of the
  caller only, so never with that item, and changes no item. \<^verbatim>\<open>PATCH /api/todos/:id\<close>
  on the id of that item with a boolean \<^verbatim>\<open>completed\<close> answers 404;
  \<^verbatim>\<open>DELETE /api/todos/:id\<close> on it answers 404; and after any \<^verbatim>\<open>PATCH\<close> or \<^verbatim>\<open>DELETE\<close> on
  that id, whatever the body, the table of items is what it was.
\<close>

theorem cross_user_isolation:
  assumes gate: "authenticateToken E (authorization req) = Next u"
    and item: "t \<in> set (todos d)"
    and owner: "todo_user_id t \<noteq> userId u"
    and pk: "distinct (map todo_id (todos d))"
  shows "fst (GET_todos E req d)
         = respond 200 (DataTodos (data_rows (json_body (fst (GET_todos E req d)))))
     \<and> t \<notin> set (data_rows (json_body (fst (GET_todos E req d))))
     \<and> (\<forall>r\<in>set (data_rows (json_body (fst (GET_todos E req d)))). todo_user_id r = userId u)
     \<and> todos (snd (GET_todos E req d)) = todos d
     \<and> (int8_in E (params_id req) = Inr (todo_id t)
          \<and> destructure (req_body req) ''completed'' = Inr (JBool c)
        \<longrightarrow> fst (PATCH_todos E req d) = error_response 404 msg_todo_not_found)
     \<and> (int8_in E (params_id req) = Inr (todo_id t)
        \<longrightarrow> todos (snd (PATCH_todos E req d)) = todos d
          \<and> fst (DELETE_todos E req d) = error_response 404 msg_todo_not_found
          \<and> todos (snd (DELETE_todos E req d)) = todos d)"
proof (intro conjI impI)
  obtain rows d1 where sel: "select_todos (userId u) d = (Inr rows, d1)"
    by (simp add: select_todos_def)
  then have rows: "set rows = {r \<in> set (todos d). todo_user_id r = userId u}"
    and same: "todos d1 = todos d"
    by (simp_all add: select_todos_rows)
  have get: "GET_todos E req d = (respond 200 (DataTodos rows), d1)"
    using gate sel by (simp add: GET_todos_def protected_def get_todos_def)
  show "fst (GET_todos E req d)
      = respond 200 (DataTodos (data_rows (json_body (fst (GET_todos E req d)))))"
    by (simp add: get)
  show "t \<notin> set (data_rows (json_body (fst (GET_todos E req d))))"
    using rows owner by (simp add: get)
  show "\<forall>r\<in>set (data_rows (json_body (fst (GET_todos E req d)))). todo_user_id r = userId u"
    using rows by (simp add: get)
  show "todos (snd (GET_todos E req d)) = todos d"
    using same by (simp add: get)
next
  assume a: "int8_in E (params_id req) = Inr (todo_id t)
          \<and> destructure (req_body req) ''completed'' = Inr (JBool c)"
  have miss: "\<forall>r\<in>set (todos d). \<not> (todo_id r = todo_id t \<and> todo_user_id r = userId u)"
    using primary_key [OF pk item] owner by blast
  have "update_todo E c (params_id req) (userId u) d = (Inr [], issue UpdateTodo d)"
    using a miss by (intro update_todo_miss) simp_all
  then show "fst (PATCH_todos E req d) = error_response 404 msg_todo_not_found"
    using gate a by (simp add: PATCH_todos_def protected_def patch_todos_def)
next
  assume a: "int8_in E (params_id req) = Inr (todo_id t)"
  have miss: "\<forall>r\<in>set (todos d). \<not> (todo_id r = todo_id t \<and> todo_user_id r = userId u)"
    using primary_key [OF pk item] owner by blast
  have upd: "\<And>c. update_todo E c (params_id req) (userId u) d = (Inr [], issue UpdateTodo d)"
    using a miss by (intro update_todo_miss) simp_all
  show "todos (snd (PATCH_todos E req d)) = todos d"
    using gate upd
    by (simp add: PATCH_todos_def protected_def patch_todos_def split: sum.splits)
  have del: "delete_todo E (params_id req) (userId u) d = (Inr 0, issue DeleteTodo d)"
    using a miss by (intro delete_todo_miss) simp_all
  show "fst (DELETE_todos E req d) = error_response 404 msg_todo_not_found"
    using gate del by (simp add: DELETE_todos_def protected_def delete_todos_def)
  show "todos (snd (DELETE_todos E req d)) = todos d"
    using gate del by (simp add: DELETE_todos_def protected_def delete_todos_def)
qed

theorem cross_user_isolation_witness:
  "item1 \<notin> set (data_rows (json_body (fst (GET_todos sample_env
       (request_of (Some ''Bearer tokB'') ''1'' (completed_body (JBool True))) sample_db))))
   \<and> fst (PATCH_todos sample_env
        (request_of (Some ''Bearer tokB'') ''1'' (completed_body (JBool True))) sample_db)
      = error_response 404 msg_todo_not_found
   \<and> todos (snd (PATCH_todos sample_env
        (request_of (Some ''Bearer tokB'') ''1'' (completed_body (JBool True))) sample_db))
      = todos sample_db
   \<and> fst (DELETE_todos sample_env
        (request_of (Some ''Bearer tokB'') ''1'' (completed_body (JBool True))) sample_db)
      = error_response 404 msg_todo_not_found
   \<and> todos (snd (DELETE_todos sample_env
        (request_of (Some ''Bearer tokB'') ''1'' (completed_body (JBool True))) sample_db))
      = todos sample_db"
proof -
  have gate: "authenticateToken sample_env
      (authorization (request_of (Some ''Bearer tokB'') ''1'' (completed_body (JBool True))))
      = Next \<lparr>userId = 2, email = js ''b@x.com''\<rparr>"
    by simp
  have item: "item1 \<in> set (todos sample_db)"
    by (simp add: sample_db_def item1_def)
  have owner: "todo_user_id item1 \<noteq> userId \<lparr>userId = 2, email = js ''b@x.com''\<rparr>"
    by (simp add: item1_def)
  have pk: "distinct (map todo_id (todos sample_db))"
    by (simp add: sample_db_def)
  have id: "todo_id item1 = 1"
    by (simp add: item1_def)
  show ?thesis
    using cross_user_isolation [OF gate item owner pk, where c = True]
    by (simp add: id)
qed

text \<open>
  The claim as written fails for a \<^verbatim>\<open>PATCH\<close> whose \<^verbatim>\<open>completed\<close> is not a boolean: the
  check of the body comes before the store is asked, so the holder of the token of
  account 2, patching item 1 of account 1 with \<^verbatim>\<open>completed: "yes"\<close>, is answered 400, not
  404.
\<close>

theorem cross_user_patch_counterexample:
  "fst (PATCH_todos sample_env
      (request_of (Some ''Bearer tokB'') ''1'' (completed_body (JStr (js ''yes'')))) sample_db)
     = error_response 400 msg_completed_boolean
   \<and> int8_in sample_env (js ''1'') = Inr (todo_id item1)
   \<and> item1 \<in> set (todos sample_db) \<and> todo_user_id item1 = 1
   \<and> authenticateToken sample_env (Some (js ''Bearer tokB''))
       = Next \<lparr>userId = 2, email = js ''b@x.com''\<rparr>
   \<and> status (error_response 400 msg_completed_boolean) \<noteq> 404"
  by (simp add: PATCH_todos_def protected_def patch_todos_def item1_def sample_db_def
        error_response_def respond_def)

text \<open>
  C10, as the code has it. When the store cannot convert the id of the URL to a number,
  \<^verbatim>\<open>DELETE /api/todos/:id\<close> answers 500 through the catch block, and so does
  \<^verbatim>\<open>PATCH /api/todos/:id\<close> when \<^verbatim>\<open>completed\<close> is a boolean. A \<^verbatim>\<open>PATCH\<close> with a parsed body
  whose \<^verbatim>\<open>completed\<close> is not a boolean is answered 400 with the store as it was, no
  statement issued, also for such an id. A \<^verbatim>\<open>PATCH\<close> never answers 404 for such an id,
  whatever its body, and neither request changes an item.
\<close>

theorem non_numeric_id_server_error:
  assumes gate: "authenticateToken E (authorization req) = Next u"
    and bad: "int8_in E (params_id req) = Inl e"
  shows "fst (DELETE_todos E req d) = server_error e
     \<and> status (fst (DELETE_todos E req d)) = 500
     \<and> (destructure (req_body req) ''completed'' = Inr (JBool c)
          \<longrightarrow> fst (PATCH_todos E req d) = server_error e
            \<and> status (fst (PATCH_todos E req d)) = 500)
     \<and> (destructure (req_body req) ''completed'' = Inr v \<and> \<not> is_boolean v
          \<longrightarrow> PATCH_todos E req d = (error_response 400 msg_completed_boolean, d))
     \<and> status (fst (PATCH_todos E req d)) \<noteq> 404
     \<and> todos (snd (PATCH_todos E req d)) = todos d
     \<and> todos (snd (DELETE_todos E req d)) = todos d"
proof -
  have upd: "\<And>c. update_todo E c (params_id req) (userId u) d = (Inl e, issue UpdateTodo d)"
    using bad by (simp add: update_todo_def)
  have del: "delete_todo E (params_id req) (userId u) d = (Inl e, issue DeleteTodo d)"
    using bad by (simp add: delete_todo_def)
  have patch: "PATCH_todos E req d = patch_todos E u req d"
    and delete: "DELETE_todos E req d = delete_todos E u req d"
    using gate by (simp_all add: PATCH_todos_def DELETE_todos_def protected_def)
  have "fst (delete_todos E u req d) = server_error e" "todos (snd (delete_todos E u req d)) = todos d"
    using del by (simp_all add: delete_todos_def)
  moreover have "destructure (req_body req) ''completed'' = Inr (JBool c)
      \<longrightarrow> fst (patch_todos E u req d) = server_error e"
    using upd by (simp add: patch_todos_def)
  moreover have "destructure (req_body req) ''completed'' = Inr v \<and> \<not> is_boolean v
      \<longrightarrow> patch_todos E u req d = (error_response 400 msg_completed_boolean, d)"
    using patch_non_boolean_parsed [OF gate, of v d] by (simp add: patch)
  moreover have "status (fst (patch_todos E u req d)) \<noteq> 404"
    using upd by (simp add: patch_todos_def split: sum.splits)
  moreover have "todos (snd (patch_todos E u req d)) = todos d"
    using upd by (simp add: patch_todos_def split: sum.splits)
  ultimately show ?thesis
    by (simp add: patch delete)
qed

theorem non_numeric_id_server_error_witness:
  "fst (DELETE_todos sample_env
      (request_of (Some ''Bearer tokA'') ''abc'' (completed_body (JBool True))) sample_db)
     = server_error (bigint_syntax_error (js ''abc''))
   \<and> status (fst (PATCH_todos sample_env
        (request_of (Some ''Bearer tokA'') ''abc'' (completed_body (JBool True))) sample_db)) = 500
   \<and> PATCH_todos sample_env
        (request_of (Some ''Bearer tokA'') ''abc'' (completed_body JNull)) sample_db
      = (error_response 400 msg_completed_boolean, sample_db)"
proof -
  have gate: "authenticateToken sample_env
      (authorization (request_of (Some ''Bearer tokA'') ''abc'' b))
      = Next \<lparr>userId = 1, email = js ''a@x.com''\<rparr>" for b
    by simp
  have bad: "int8_in sample_env (params_id (request_of (Some ''Bearer tokA'') ''abc'' b))
      = Inl (bigint_syntax_error (js ''abc''))" for b
    by simp
  show ?thesis
    using non_numeric_id_server_error [OF gate bad, where c = True and d = sample_db
        and b1 = "completed_body (JBool True)" and v = JNull]
      non_numeric_id_server_error [OF gate bad, where c = True and d = sample_db
        and b1 = "completed_body JNull" and v = JNull]
    by simp
qed

text \<open>
  The claim as written fails for a \<^verbatim>\<open>PATCH\<close> whose \<^verbatim>\<open>completed\<close> is not a boolean: it is
  answered 400 before any statement reaches the store, also when the id is no number.
\<close>

theorem non_numeric_id_patch_counterexample:
  "int8_in sample_env (js ''abc'') = Inl (bigint_syntax_error (js ''abc''))
   \<and> authenticateToken sample_env (Some (js ''Bearer tokA''))
       = Next \<lparr>userId = 1, email = js ''a@x.com''\<rparr>
   \<and> PATCH_todos sample_env
        (request_of (Some ''Bearer tokA'') ''abc'' (completed_body (JStr (js ''yes'')))) sample_db
      = (error_response 400 msg_completed_boolean, sample_db)
   \<and> status (error_response 400 msg_completed_boolean) \<noteq> 500"
  by (simp add: PATCH_todos_def protected_def patch_todos_def)

text \<open>
  C7, as the code has it. A caller whose account is in the store creates an item with a
  text \<open>T\<close> that is not blank and has no code unit 0, at a time of the store's clock later
  than the creation times of the caller's items. The response is 200 with the new row:
  the text as the store holds it (\<open>T\<close> with every unpaired surrogate replaced by U+FFFD,
  so \<open>T\<close> itself when \<open>T\<close> is well-formed), not completed, the id drawn from the sequence,
  the creation time read from the clock. A \<^verbatim>\<open>GET /api/todos\<close> by the same caller on the
  resulting store answers 200 with the caller's items and no others, in the order of
  their creation times, latest first: that row first, followed by what the list was
  before.
\<close>

theorem create_then_list:
  assumes gate: "authenticateToken E (authorization req) = Next u"
    and body: "destructure (req_body req) ''text'' = Inr (JStr T)"
    and filled: "trim T \<noteq> []"
    and held: "0 \<notin> set T"
    and account: "\<exists>a\<in>set (users d). user_id a = userId u"
    and clock: "\<forall>t\<in>set (todos d). todo_user_id t = userId u \<longrightarrow> todo_created_at t < pg_now E"
    and gate2: "authenticateToken E2 (authorization req2) = Next u2" "userId u2 = userId u"
    and row: "row = \<lparr>todo_id = todos_id_seq d, todo_text = utf8_text T, todo_completed = False,
                todo_user_id = userId u, todo_created_at = pg_now E\<rparr>"
  shows "fst (POST_todos E req d) = respond 200 (DataTodo row)
     \<and> (utf8_text T = T \<longrightarrow> todo_text row = T)
     \<and> fst (GET_todos E2 req2 (snd (POST_todos E req d)))
         = respond 200 (DataTodos (row # data_rows (json_body (fst (GET_todos E2 req2 d)))))
     \<and> sorted_wrt (\<lambda>a b. todo_created_at b \<le> todo_created_at a)
         (data_rows (json_body (fst (GET_todos E2 req2 (snd (POST_todos E req d))))))
     \<and> set (data_rows (json_body (fst (GET_todos E2 req2 (snd (POST_todos E req d))))))
         = {t \<in> set (todos (snd (POST_todos E req d))). todo_user_id t = userId u}"
proof -
  let ?d1 = "(issue InsertTodo d)\<lparr>todos_id_seq := todos_id_seq d + 1, todos := todos d @ [row]\<rparr>"
  let ?mine = "filter (\<lambda>t. todo_user_id t = userId u) (todos d)"
  let ?key = "\<lambda>t. - int (todo_created_at t)"
  have post: "POST_todos E req d = (respond 200 (DataTodo row), ?d1)"
    using gate post_todos_accepts [OF body filled held account row]
    by (simp add: POST_todos_def protected_def)
  have get: "fst (GET_todos E2 req2 s) = respond 200 (DataTodos
      (sort_key ?key (filter (\<lambda>t. todo_user_id t = userId u) (todos s))))" for s
    using gate2 get_todos_listing [of E2 u2 req2 s]
    by (simp add: GET_todos_def protected_def)
  have "\<forall>t\<in>set ?mine. ?key row < ?key t"
    using clock row by auto
  then have "sort_key ?key (?mine @ [row]) = row # sort_key ?key ?mine"
    by (rule sort_key_new_first)
  moreover have "filter (\<lambda>t. todo_user_id t = userId u) (todos ?d1) = ?mine @ [row]"
    using row by simp
  ultimately have first: "fst (GET_todos E2 req2 ?d1)
      = respond 200 (DataTodos (row # data_rows (json_body (fst (GET_todos E2 req2 d)))))"
    by (simp add: get)
  have "sorted_wrt (\<lambda>a b. todo_created_at b \<le> todo_created_at a)
      (data_rows (json_body (fst (GET_todos E2 req2 ?d1))))"
    by (simp only: get status_respond data_rows.simps latest_first)
  moreover have "set (data_rows (json_body (fst (GET_todos E2 req2 ?d1))))
      = {t \<in> set (todos ?d1). todo_user_id t = userId u}"
    by (simp only: get status_respond data_rows.simps set_sort set_filter)
  moreover have "utf8_text T = T \<longrightarrow> todo_text row = T"
    using row by simp
  ultimately show ?thesis
    using post first by simp
qed

theorem create_then_list_witness:
  "fst (POST_todos sample_env (request_of (Some ''Bearer tokA'') '''' (text_body (js ''hello''))) sample_db)
     = respond 200 (DataTodo \<lparr>todo_id = 4, todo_text = js ''hello'', todo_completed = False,
         todo_user_id = 1, todo_created_at = 100\<rparr>)
   \<and> fst (GET_todos sample_env (request_of (Some ''Bearer tokA'') '''' NoBody)
       (snd (POST_todos sample_env
          (request_of (Some ''Bearer tokA'') '''' (text_body (js ''hello''))) sample_db)))
     = respond 200 (DataTodos
        [\<lparr>todo_id = 4, todo_text = js ''hello'', todo_completed = False,
          todo_user_id = 1, todo_created_at = 100\<rparr>,
         \<lparr>todo_id = 3, todo_text = js ''read'', todo_completed = True,
          todo_user_id = 1, todo_created_at = 22\<rparr>,
         \<lparr>todo_id = 1, todo_text = js ''buy milk'', todo_completed = False,
          todo_user_id = 1, todo_created_at = 20\<rparr>])"
proof -
  let ?u = "\<lparr>userId = 1, email = js ''a@x.com''\<rparr>"
  have gate: "authenticateToken sample_env
      (authorization (request_of (Some ''Bearer tokA'') '''' (text_body (js ''hello'')))) = Next ?u"
    and gate2: "authenticateToken sample_env
      (authorization (request_of (Some ''Bearer tokA'') '''' NoBody)) = Next ?u"
    by simp_all
  have body: "destructure (req_body (request_of (Some ''Bearer tokA'') '''' (text_body (js ''hello''))))
      ''text'' = Inr (JStr (js ''hello''))"
    by simp
  have filled: "trim (js ''hello'') \<noteq> []"
    by (simp add: trim_def is_space_def js_def)
  have held: "0 \<notin> set (js ''hello'')"
    by (simp add: js_def)
  have kept: "utf8_text (js ''hello'') = js ''hello''"
    by (simp add: js_def high_surrogate_def low_surrogate_def)
  have account: "\<exists>a\<in>set (users sample_db). user_id a = userId ?u"
    by (simp add: sample_db_def)
  have clock: "\<forall>t\<in>set (todos sample_db). todo_user_id t = userId ?u
      \<longrightarrow> todo_created_at t < pg_now sample_env"
    by (simp add: sample_db_def)
  have listed: "data_rows (json_body (fst (GET_todos sample_env
        (request_of (Some ''Bearer tokA'') '''' NoBody) sample_db)))
      = [\<lparr>todo_id = 3, todo_text = js ''read'', todo_completed = True,
          todo_user_id = 1, todo_created_at = 22\<rparr>,
         \<lparr>todo_id = 1, todo_text = js ''buy milk'', todo_completed = False,
          todo_user_id = 1, todo_created_at = 20\<rparr>]"
    by (simp add: GET_todos_def protected_def get_todos_def select_todos_def sample_db_def)
  have seq: "todos_id_seq sample_db = 4"
    by (simp add: sample_db_def)
  show ?thesis
    using create_then_list [OF gate body filled held account clock gate2 refl refl]
    by (simp add: listed seq kept)
qed

text \<open>
  The claim as written fails in four ways. When the store's clock reads 21 at the insert,
  earlier than the creation time 22 of an item of the caller, the new item is listed
  second. A text with an unpaired surrogate comes back with U+FFFD in its place, not as
  it was sent. A text with the code unit 0 is refused by the store and answered 500. And
  the holder of a valid token whose account the store no longer has is answered 500,
  the insert failing on the foreign key.
\<close>

theorem create_then_list_counterexample:
  "map todo_id (data_rows (json_body (fst (GET_todos sample_env
       (request_of (Some ''Bearer tokA'') '''' NoBody)
       (snd (POST_todos (sample_env\<lparr>pg_now := 21\<rparr>)
          (request_of (Some ''Bearer tokA'') '''' (text_body (js ''hello''))) sample_db))))))
     = [3, 4, 1]
   \<and> fst (POST_todos sample_env
        (request_of (Some ''Bearer tokA'') '''' (text_body [0xD800, 120])) sample_db)
     = respond 200 (DataTodo \<lparr>todo_id = 4, todo_text = [0xFFFD, 120], todo_completed = False,
         todo_user_id = 1, todo_created_at = 100\<rparr>)
   \<and> status (fst (POST_todos sample_env
        (request_of (Some ''Bearer tokA'') '''' (text_body [97, 0, 98])) sample_db)) = 500
   \<and> status (fst (POST_todos sample_env
        (request_of (Some ''Bearer tokC'') '''' (text_body (js ''hello''))) sample_db)) = 500"
proof -
  let ?u = "\<lparr>userId = 1, email = js ''a@x.com''\<rparr>"
  let ?E = "sample_env\<lparr>pg_now := 21\<rparr>"
  let ?new = "\<lparr>todo_id = 4, todo_text = js ''hello'', todo_completed = False,
      todo_user_id = 1, todo_created_at = 21\<rparr>"
  have account: "\<exists>a\<in>set (users sample_db). user_id a = userId ?u"
    by (simp add: sample_db_def)
  have seq: "todos_id_seq sample_db = 4"
    by (simp add: sample_db_def)
  have hello: "trim (js ''hello'') \<noteq> []" "0 \<notin> set (js ''hello'')"
      "utf8_text (js ''hello'') = js ''hello''"
    by (simp_all add: trim_def is_space_def js_def high_surrogate_def low_surrogate_def)
  have "authenticateToken ?E (Some (js ''Bearer tokA'')) = Next ?u"
    by (simp add: authenticateToken_def)
  moreover have "post_todos ?E ?u
      (request_of (Some ''Bearer tokA'') '''' (text_body (js ''hello''))) sample_db
    = (respond 200 (DataTodo ?new),
       (issue InsertTodo sample_db)\<lparr>todos_id_seq := todos_id_seq sample_db + 1,
         todos := todos sample_db @ [?new]\<rparr>)"
    by (rule post_todos_accepts [OF _ hello(1,2) account]) (simp_all add: hello(3) seq)
  ultimately have "snd (POST_todos ?E
      (request_of (Some ''Bearer tokA'') '''' (text_body (js ''hello''))) sample_db)
    = (issue InsertTodo sample_db)\<lparr>todos_id_seq := todos_id_seq sample_db + 1,
         todos := todos sample_db @ [?new]\<rparr>"
    by (simp add: POST_todos_def protected_def)
  then have late: "map todo_id (data_rows (json_body (fst (GET_todos sample_env
       (request_of (Some ''Bearer tokA'') '''' NoBody)
       (snd (POST_todos ?E
          (request_of (Some ''Bearer tokA'') '''' (text_body (js ''hello''))) sample_db))))))
     = [3, 4, 1]"
    by (simp add: GET_todos_def protected_def get_todos_listing sample_db_def)
  have lone: "trim [0xD800, 120] \<noteq> []" "0 \<notin> set [0xD800, 120 :: nat]"
      "utf8_text [0xD800, 120] = [0xFFFD, 120]"
    by (simp_all add: trim_def is_space_def high_surrogate_def low_surrogate_def)
  have "post_todos sample_env ?u
      (request_of (Some ''Bearer tokA'') '''' (text_body [0xD800, 120])) sample_db
    = (respond 200 (DataTodo \<lparr>todo_id = 4, todo_text = [0xFFFD, 120], todo_completed = False,
         todo_user_id = 1, todo_created_at = 100\<rparr>),
       (issue InsertTodo sample_db)\<lparr>todos_id_seq := todos_id_seq sample_db + 1,
         todos := todos sample_db @ [\<lparr>todo_id = 4, todo_text = [0xFFFD, 120],
           todo_completed = False, todo_user_id = 1, todo_created_at = 100\<rparr>]\<rparr>)"
    by (rule post_todos_accepts [OF _ lone(1,2) account])
       (simp_all add: seq high_surrogate_def low_surrogate_def)
  then have replaced: "fst (POST_todos sample_env
        (request_of (Some ''Bearer tokA'') '''' (text_body [0xD800, 120])) sample_db)
     = respond 200 (DataTodo \<lparr>todo_id = 4, todo_text = [0xFFFD, 120], todo_completed = False,
         todo_user_id = 1, todo_created_at = 100\<rparr>)"
    by (simp add: POST_todos_def protected_def)
  have nul: "trim [97, 0, 98] \<noteq> []" "0 \<in> set [97, 0, 98 :: nat]"
    by (simp_all add: trim_def is_space_def)
  have "status (fst (post_todos sample_env ?u
      (request_of (Some ''Bearer tokA'') '''' (text_body [97, 0, 98])) sample_db)) = 500"
    using post_todos_refused_text [OF _ nul, where E = sample_env and u = "?u" and d = sample_db
        and req = "request_of (Some ''Bearer tokA'') '''' (text_body [97, 0, 98])"]
    by simp
  then have refused: "status (fst (POST_todos sample_env
        (request_of (Some ''Bearer tokA'') '''' (text_body [97, 0, 98])) sample_db)) = 500"
    by (simp add: POST_todos_def protected_def)
  have gone: "status (fst (POST_todos sample_env
        (request_of (Some ''Bearer tokC'') '''' (text_body (js ''hello''))) sample_db)) = 500"
    using hello
    by (simp add: POST_todos_def protected_def post_todos_def insert_todo_def text_in_def
          list_ex_iff sample_db_def)
  show ?thesis
    using late replaced refused gone by simp
qed

text \<open>
  C3. The handler of \<^verbatim>\<open>POST /api/todos\<close> tests only that the text is not blank; it has
  no bound on the length. A text of 501 characters is answered 200 and stored.
\<close>

theorem post_501_characters_accepted:
  "length (replicate 501 (97::nat)) = 501
   \<and> fst (POST_todos sample_env
        (request_of (Some ''Bearer tokA'') '''' (text_body (replicate 501 97))) sample_db)
     = respond 200 (DataTodo \<lparr>todo_id = 4, todo_text = replicate 501 97, todo_completed = False,
         todo_user_id = 1, todo_created_at = 100\<rparr>)
   \<and> todos (snd (POST_todos sample_env
        (request_of (Some ''Bearer tokA'') '''' (text_body (replicate 501 97))) sample_db))
     = todos sample_db @ [\<lparr>todo_id = 4, todo_text = replicate 501 97, todo_completed = False,
         todo_user_id = 1, todo_created_at = 100\<rparr>]"
proof -
  let ?u = "\<lparr>userId = 1, email = js ''a@x.com''\<rparr>"
  let ?req = "request_of (Some ''Bearer tokA'') '''' (text_body (replicate 501 97))"
  have "\<not> is_space 97" by (simp add: is_space_def)
  then have filled: "trim (replicate 501 97) \<noteq> []"
    by (simp add: trim_Nil_iff)
  have held: "0 \<notin> set (replicate 501 (97::nat))"
    by simp
  have "\<not> high_surrogate 97 \<and> \<not> low_surrogate 97"
    by (simp add: high_surrogate_def low_surrogate_def)
  then have kept: "utf8_text (replicate 501 97) = replicate 501 97"
    by (intro utf8_text_plain) simp
  have account: "\<exists>a\<in>set (users sample_db). user_id a = userId ?u"
    by (simp add: sample_db_def)
  have "post_todos sample_env ?u ?req sample_db =
     (respond 200 (DataTodo \<lparr>todo_id = todos_id_seq sample_db,
          todo_text = utf8_text (replicate 501 97),
          todo_completed = False, todo_user_id = userId ?u, todo_created_at = pg_now sample_env\<rparr>),
      (issue InsertTodo sample_db)\<lparr>todos_id_seq := todos_id_seq sample_db + 1,
        todos := todos sample_db @ [\<lparr>todo_id = todos_id_seq sample_db,
          todo_text = utf8_text (replicate 501 97),
          todo_completed = False, todo_user_id = userId ?u, todo_created_at = pg_now sample_env\<rparr>]\<rparr>)"
    by (rule post_todos_accepts [OF _ filled held account refl]) simp
  then show ?thesis
    by (simp add: POST_todos_def protected_def sample_db_def kept)
qed

text \<open>
  C4. The catch blocks put \<^verbatim>\<open>details: err.message\<close> beside the generic message. A
  \<^verbatim>\<open>DELETE /api/todos/abc\<close> with a valid token is answered 500 with a body of two fields,
  the second the text of the store's error.
\<close>

theorem store_error_details_returned:
  "fst (DELETE_todos sample_env (request_of (Some ''Bearer tokA'') ''abc'' NoBody) sample_db)
     = respond 500 (Fields [(''error'', msg_server_error),
         (''details'', js ''invalid input syntax for type bigint: '' @ 34 # js ''abc'' @ [34])])
   \<and> fst (DELETE_todos sample_env (request_of (Some ''Bearer tokA'') ''abc'' NoBody) sample_db)
     \<noteq> error_response 500 msg_server_error"
  by (simp add: DELETE_todos_def protected_def delete_todos_def delete_todo_def
        server_error_def bigint_syntax_error_def error_response_def respond_def)

end
